theory Spec2Isabelle
  imports Complex_Main "HOL-Library.Sublist"
begin

section \<open>Python values\<close>

text \<open>
  The module \<^verbatim>\<open>littleslaw/Py00001.py\<close> is a class \<^verbatim>\<open>LittlesLaw\<close> of static methods.
  Every method takes arbitrary Python objects, checks them with \<^verbatim>\<open>_validate_input\<close>
  and then applies one arithmetic formula.

  Numbers are the three built-in classes that pass \<^verbatim>\<open>isinstance(value, (int, float))\<close>:
  \<^verbatim>\<open>int\<close> (unbounded), \<^verbatim>\<open>bool\<close> (a subclass of \<^verbatim>\<open>int\<close>) and \<^verbatim>\<open>float\<close>.
  A float is idealised as the rational number it denotes: arithmetic on floats is exact
  here, with no rounding, no overflow, no infinities and no NaN. Which class a result
  has (\<^verbatim>\<open>int\<close> or \<^verbatim>\<open>float\<close>) is kept, since Python decides it from the operands.
\<close>

datatype num = PyInt int | PyBool bool | PyFloat rat

text \<open>
  Any other object is a string, \<^verbatim>\<open>None\<close>, or an instance of some further class that is
  not a subclass of \<^verbatim>\<open>int\<close> or \<^verbatim>\<open>float\<close>, given by the name of its class.
\<close>

datatype pyval = Num num | Str string | NoneVal | Obj string

text \<open>The mathematical value of a number; \<^verbatim>\<open>True\<close> is 1 and \<^verbatim>\<open>False\<close> is 0.\<close>

fun num_val :: "num \<Rightarrow> rat" where
  "num_val (PyInt i) = of_int i"
| "num_val (PyBool b) = (if b then 1 else 0)"
| "num_val (PyFloat r) = r"

text \<open>The integer held by an instance of \<^verbatim>\<open>int\<close> (which includes \<^verbatim>\<open>bool\<close>).\<close>

fun int_val :: "num \<Rightarrow> int option" where
  "int_val (PyInt i) = Some i"
| "int_val (PyBool b) = Some (if b then 1 else 0)"
| "int_val (PyFloat r) = None"

text \<open>\<^verbatim>\<open>isinstance(value, (int, float))\<close> and \<^verbatim>\<open>isinstance(value, int)\<close>.\<close>

fun isinstance_int_float :: "pyval \<Rightarrow> bool" where
  "isinstance_int_float (Num n) = True"
| "isinstance_int_float v = False"

fun isinstance_int :: "pyval \<Rightarrow> bool" where
  "isinstance_int (Num (PyInt i)) = True"
| "isinstance_int (Num (PyBool b)) = True"
| "isinstance_int v = False"

text \<open>\<^verbatim>\<open>type(value).__name__\<close>.\<close>

fun type_name :: "pyval \<Rightarrow> string" where
  "type_name (Num (PyInt i)) = ''int''"
| "type_name (Num (PyBool b)) = ''bool''"
| "type_name (Num (PyFloat r)) = ''float''"
| "type_name (Str s) = ''str''"
| "type_name NoneVal = ''NoneType''"
| "type_name (Obj c) = c"

section \<open>Exceptions and their messages\<close>

text \<open>
  Every message of the module is an f-string or a plain literal. An f-string is kept as
  the list of its pieces: literal text, and the objects formatted into it. How Python
  prints a number is not modelled; which object is printed is.
\<close>

datatype fragment = Lit string | Fmt pyval

type_synonym message = "fragment list"

text \<open>
  \<^verbatim>\<open>TypeError\<close> is the spec's TypeKind and \<^verbatim>\<open>ValueError\<close> its RangeKind.
  \<^verbatim>\<open>ZeroDivisionError\<close> is what \<^verbatim>\<open>/\<close> raises on a zero divisor. \<open>Unmodelled\<close> stands for
  an arithmetic operator applied to an operand that is not a number, where Python's
  behaviour (a \<^verbatim>\<open>TypeError\<close>, or sequence repetition and concatenation) is left out.
\<close>

datatype py_error =
    TypeError message
  | ValueError message
  | ZeroDivisionError
  | Unmodelled

definition apostrophe :: string where
  "apostrophe = [CHR 0x27]"

section \<open>Arithmetic and comparison\<close>

text \<open>
  \<^verbatim>\<open>a * b\<close> and \<^verbatim>\<open>a + b\<close>: an \<^verbatim>\<open>int\<close> when both operands are instances of \<^verbatim>\<open>int\<close>
  (also for two booleans), a \<^verbatim>\<open>float\<close> otherwise.
\<close>

definition num_mul :: "num \<Rightarrow> num \<Rightarrow> num" where
  "num_mul a b =
     (case (int_val a, int_val b) of
        (Some i, Some j) \<Rightarrow> PyInt (i * j)
      | _ \<Rightarrow> PyFloat (num_val a * num_val b))"

definition num_add :: "num \<Rightarrow> num \<Rightarrow> num" where
  "num_add a b =
     (case (int_val a, int_val b) of
        (Some i, Some j) \<Rightarrow> PyInt (i + j)
      | _ \<Rightarrow> PyFloat (num_val a + num_val b))"

text \<open>\<^verbatim>\<open>a / b\<close> is true division: always a \<^verbatim>\<open>float\<close>, and an exception when \<^verbatim>\<open>b\<close> is zero.\<close>

definition num_truediv :: "num \<Rightarrow> num \<Rightarrow> py_error + num" where
  "num_truediv a b =
     (if num_val b = 0 then Inl ZeroDivisionError
      else Inr (PyFloat (num_val a / num_val b)))"

fun py_mul :: "pyval \<Rightarrow> pyval \<Rightarrow> py_error + pyval" where
  "py_mul (Num a) (Num b) = Inr (Num (num_mul a b))"
| "py_mul a b = Inl Unmodelled"

fun py_add :: "pyval \<Rightarrow> pyval \<Rightarrow> py_error + pyval" where
  "py_add (Num a) (Num b) = Inr (Num (num_add a b))"
| "py_add a b = Inl Unmodelled"

fun py_truediv :: "pyval \<Rightarrow> pyval \<Rightarrow> py_error + pyval" where
  "py_truediv (Num a) (Num b) =
     (case num_truediv a b of Inl e \<Rightarrow> Inl e | Inr q \<Rightarrow> Inr (Num q))"
| "py_truediv a b = Inl Unmodelled"

text \<open>
  The comparisons of the module all have a number on the left and a numeric literal on
  the right; they compare mathematical values. On other objects they are False here;
  the module never reaches them there.
\<close>

fun py_lt :: "pyval \<Rightarrow> rat \<Rightarrow> bool" where
  "py_lt (Num a) c = (num_val a < c)"
| "py_lt v c = False"

fun py_le :: "pyval \<Rightarrow> rat \<Rightarrow> bool" where
  "py_le (Num a) c = (num_val a \<le> c)"
| "py_le v c = False"

fun py_gt :: "pyval \<Rightarrow> rat \<Rightarrow> bool" where
  "py_gt (Num a) c = (c < num_val a)"
| "py_gt v c = False"

fun py_eq :: "pyval \<Rightarrow> rat \<Rightarrow> bool" where
  "py_eq (Num a) c = (num_val a = c)"
| "py_eq v c = False"

text \<open>Sequencing: the next statement runs only when the previous one did not raise.\<close>

definition and_then :: "py_error + 'a \<Rightarrow> ('a \<Rightarrow> py_error + 'b) \<Rightarrow> py_error + 'b" where
  "and_then r f = (case r of Inl e \<Rightarrow> Inl e | Inr x \<Rightarrow> f x)"

section \<open>The validator\<close>

text \<open>
  \<^verbatim>\<open>_validate_input(value, name, allow_zero=True)\<close>: three checks in the order of the
  source, each raising; \<open>Inr ()\<close> when the function returns (it returns nothing).
\<close>

definition validate_input :: "pyval \<Rightarrow> string \<Rightarrow> bool \<Rightarrow> py_error + unit" where
  "validate_input v name allow_zero =
     (if \<not> isinstance_int_float v then
        Inl (TypeError
          [Lit (''Invalid type for '' @ apostrophe), Fmt (Str name),
           Lit (apostrophe @ ''. Expected int or float, got ''),
           Fmt (Str (type_name v)), Lit ''.''])
      else if py_lt v 0 then
        Inl (ValueError
          [Lit (''Invalid value for '' @ apostrophe), Fmt (Str name),
           Lit (apostrophe @ ''. Value cannot be negative (''), Fmt v, Lit '').''])
      else if \<not> allow_zero \<and> py_eq v 0 then
        Inl (ValueError
          [Lit (''Invalid value for '' @ apostrophe), Fmt (Str name),
           Lit (apostrophe @ ''. Value cannot be zero (dividing by zero).'')])
      else Inr ())"

section \<open>The formulas\<close>

definition calculate_wip :: "pyval \<Rightarrow> pyval \<Rightarrow> py_error + pyval" where
  "calculate_wip throughput cycle_time =
     and_then (validate_input throughput ''throughput'' True) (\<lambda>_.
     and_then (validate_input cycle_time ''cycle_time'' True) (\<lambda>_.
     py_mul throughput cycle_time))"



text \<open>The dictionary that \<^verbatim>\<open>calculate_station_utilization\<close> returns has three fixed keys.\<close>

record utilization_result =
  station_wip :: pyval
  utilization :: pyval
  utilization_pct :: pyval

text \<open>
  The machine count is not given to the validator: one test of its own, one message.
  \<^verbatim>\<open>or\<close> does not evaluate \<^verbatim>\<open>number_of_machines <= 0\<close> on an object that is not an
  \<^verbatim>\<open>int\<close>. The statement \<^verbatim>\<open>if utilization > 1.0: pass\<close> compares and does nothing.
\<close>

definition calculate_station_utilization ::
  "pyval \<Rightarrow> pyval \<Rightarrow> pyval \<Rightarrow> py_error + utilization_result" where
  "calculate_station_utilization station_throughput station_cycle_time number_of_machines =
     and_then (validate_input station_throughput ''station_throughput'' True) (\<lambda>_.
     and_then (validate_input station_cycle_time ''station_cycle_time'' True) (\<lambda>_.
     if \<not> isinstance_int number_of_machines \<or> py_le number_of_machines 0 then
       Inl (ValueError
         [Lit ''Number of machines must be a positive integer. Got '',
          Fmt number_of_machines, Lit ''.''])
     else
       and_then (py_mul station_throughput station_cycle_time) (\<lambda>wip.
       and_then (py_truediv wip number_of_machines) (\<lambda>u.
       and_then (if py_gt u 1 then Inr () else Inr ()) (\<lambda>_.
       and_then (py_mul u (Num (PyInt 100))) (\<lambda>pct.
       Inr \<lparr>station_wip = wip, utilization = u, utilization_pct = pct\<rparr>))))))"

definition calculate_inventory_turns :: "pyval \<Rightarrow> pyval \<Rightarrow> pyval \<Rightarrow> py_error + pyval" where
  "calculate_inventory_turns throughput wip fgi =
     and_then (validate_input throughput ''throughput'' True) (\<lambda>_.
     and_then (validate_input wip ''wip'' True) (\<lambda>_.
     and_then (validate_input fgi ''fgi'' True) (\<lambda>_.
     and_then (py_add wip fgi) (\<lambda>total_inventory.
     if py_eq total_inventory 0 then
       Inl (ValueError
         [Lit ''Total inventory (WIP + FGI) cannot be zero when calculating turns.''])
     else py_truediv throughput total_inventory))))"

text \<open>The call with two arguments: \<^verbatim>\<open>fgi\<close> defaults to the integer 0.\<close>

definition calculate_inventory_turns_default :: "pyval \<Rightarrow> pyval \<Rightarrow> py_error + pyval" where
  "calculate_inventory_turns_default throughput wip =
     calculate_inventory_turns throughput wip (Num (PyInt 0))"



section \<open>Reading results and messages\<close>

text \<open>Which exception a call raised, if any.\<close>

fun raises_TypeError :: "py_error + 'a \<Rightarrow> bool" where
  "raises_TypeError (Inl (TypeError msg)) = True"
| "raises_TypeError r = False"

fun raises_ValueError :: "py_error + 'a \<Rightarrow> bool" where
  "raises_ValueError (Inl (ValueError msg)) = True"
| "raises_ValueError r = False"




section \<open>Basic facts\<close>

lemma and_then_Inl [simp]: "and_then (Inl e) f = Inl e"
  by (simp add: and_then_def)

lemma and_then_Inr [simp]: "and_then (Inr x) f = f x"
  by (simp add: and_then_def)



lemma validate_input_Num:
  "validate_input (Num a) name allow_zero = Inr () \<longleftrightarrow>
     0 \<le> num_val a \<and> (allow_zero \<or> num_val a \<noteq> 0)"
  by (auto simp add: validate_input_def)

lemma validate_input_ok:
  "0 \<le> num_val a \<Longrightarrow> allow_zero \<or> num_val a \<noteq> 0 \<Longrightarrow>
     validate_input (Num a) name allow_zero = Inr ()"
  by (simp add: validate_input_Num)

lemma py_truediv_Num:
  "py_truediv (Num a) (Num b) =
     (if num_val b = 0 then Inl ZeroDivisionError
      else Inr (Num (PyFloat (num_val a / num_val b))))"
  by (simp add: num_truediv_def)

declare py_truediv.simps(1) [simp del]


lemma int_val_num_val: "int_val m = Some k \<Longrightarrow> num_val m = of_int k"
  by (cases m) (auto split: if_splits)


lemma isinstance_int_iff: "isinstance_int v \<longleftrightarrow> (\<exists>m k. v = Num m \<and> int_val m = Some k)"
  by (cases v rule: isinstance_int.cases) auto


















section \<open>The claims\<close>












text \<open>
  Claim C6. With valid station throughput and cycle time, a machine count that is not an
  \<^verbatim>\<open>int\<close> \<open>\<ge> 1\<close> (any object at all: a float, a string, zero, a negative integer) makes
  \<^verbatim>\<open>calculate_station_utilization\<close> raise \<^verbatim>\<open>ValueError\<close>; so do 0 and 2.5.
\<close>

theorem machine_count_rejected:
  assumes "0 \<le> num_val a" and "0 \<le> num_val b"
    and "\<not> (\<exists>m k. n = Num m \<and> int_val m = Some k \<and> 1 \<le> k)"
  shows "calculate_station_utilization (Num a) (Num b) n =
           Inl (ValueError
             [Lit ''Number of machines must be a positive integer. Got '', Fmt n, Lit ''.''])
         \<and> raises_ValueError (calculate_station_utilization (Num a) (Num b) (Num (PyInt 0)))
         \<and> raises_ValueError
             (calculate_station_utilization (Num a) (Num b) (Num (PyFloat (5 / 2))))"
proof -
  have bad: "\<not> isinstance_int n \<or> py_le n 0"
  proof (cases "isinstance_int n")
    case False
    then show ?thesis by simp
  next
    case True
    then obtain m k where mk: "n = Num m" "int_val m = Some k"
      by (auto simp add: isinstance_int_iff)
    with assms(3) have "k < 1" by auto
    then show ?thesis using mk by (simp add: int_val_num_val)
  qed
  show ?thesis
    using assms(1,2) bad
    by (simp add: calculate_station_utilization_def validate_input_ok)
qed

theorem machine_count_rejected_witness:
  "0 \<le> num_val (PyInt 10) \<and> 0 \<le> num_val (PyInt 2)
   \<and> \<not> (\<exists>m k. Str ''three'' = Num m \<and> int_val m = Some k \<and> 1 \<le> k)
   \<and> calculate_station_utilization (Num (PyInt 10)) (Num (PyInt 2)) (Str ''three'') =
       Inl (ValueError
         [Lit ''Number of machines must be a positive integer. Got '', Fmt (Str ''three''),
          Lit ''.''])
   \<and> raises_ValueError
       (calculate_station_utilization (Num (PyInt 10)) (Num (PyInt 2)) (Num (PyInt 0)))
   \<and> raises_ValueError
       (calculate_station_utilization (Num (PyInt 10)) (Num (PyInt 2)) (Num (PyFloat (5 / 2))))"
  using machine_count_rejected [of "PyInt 10" "PyInt 2" "Str ''three''"]
  by simp




text \<open>
  Claim C8. In \<^verbatim>\<open>calculate_inventory_turns\<close> the three validations, in the order
  throughput, wip, fgi, come before the sum and its test: a throughput that is not a
  number gives the validator's \<^verbatim>\<open>TypeError\<close> whatever \<open>wip\<close> and \<open>fgi\<close> are (also when
  both are zero), and the first validation that fails gives the exception of the call,
  which then returns no number.
\<close>

theorem inventory_turns_validation_first:
  "(\<not> isinstance_int_float throughput \<longrightarrow>
      calculate_inventory_turns throughput wip fgi =
        Inl (TypeError
          [Lit (''Invalid type for '' @ apostrophe), Fmt (Str ''throughput''),
           Lit (apostrophe @ ''. Expected int or float, got ''),
           Fmt (Str (type_name throughput)), Lit ''.'']))
   \<and> (validate_input throughput ''throughput'' True = Inl e \<longrightarrow>
        calculate_inventory_turns throughput wip fgi = Inl e)
   \<and> (validate_input throughput ''throughput'' True = Inr ()
        \<and> validate_input wip ''wip'' True = Inl e \<longrightarrow>
        calculate_inventory_turns throughput wip fgi = Inl e)
   \<and> (validate_input throughput ''throughput'' True = Inr ()
        \<and> validate_input wip ''wip'' True = Inr ()
        \<and> validate_input fgi ''fgi'' True = Inl e \<longrightarrow>
        calculate_inventory_turns throughput wip fgi = Inl e)
   \<and> raises_TypeError (calculate_inventory_turns (Str ''5'') (Num (PyInt 0)) (Num (PyInt 0)))"
  by (simp add: calculate_inventory_turns_def) (simp add: validate_input_def)

theorem inventory_turns_validation_first_witness:
  "\<not> isinstance_int_float NoneVal
   \<and> calculate_inventory_turns NoneVal (Num (PyInt 0)) (Num (PyFloat 0)) =
       Inl (TypeError
          [Lit (''Invalid type for '' @ apostrophe), Fmt (Str ''throughput''),
           Lit (apostrophe @ ''. Expected int or float, got ''),
           Fmt (Str ''NoneType''), Lit ''.''])
   \<and> validate_input (Num (PyInt 5)) ''throughput'' True = Inr ()
   \<and> validate_input (Num (PyInt (- 3))) ''wip'' True =
       Inl (ValueError
          [Lit (''Invalid value for '' @ apostrophe), Fmt (Str ''wip''),
           Lit (apostrophe @ ''. Value cannot be negative (''), Fmt (Num (PyInt (- 3))),
           Lit '').''])
   \<and> calculate_inventory_turns (Num (PyInt 5)) (Num (PyInt (- 3))) (Num (PyInt 3)) =
       Inl (ValueError
          [Lit (''Invalid value for '' @ apostrophe), Fmt (Str ''wip''),
           Lit (apostrophe @ ''. Value cannot be negative (''), Fmt (Num (PyInt (- 3))),
           Lit '').''])"
  using inventory_turns_validation_first
      [of NoneVal "Num (PyInt 0)" "Num (PyFloat 0)"
        "TypeError
          [Lit (''Invalid type for '' @ apostrophe), Fmt (Str ''throughput''),
           Lit (apostrophe @ ''. Expected int or float, got ''),
           Fmt (Str ''NoneType''), Lit ''.'']"]
    inventory_turns_validation_first
      [of "Num (PyInt 5)" "Num (PyInt (- 3))" "Num (PyInt 3)"
        "ValueError
          [Lit (''Invalid value for '' @ apostrophe), Fmt (Str ''wip''),
           Lit (apostrophe @ ''. Value cannot be negative (''), Fmt (Num (PyInt (- 3))),
           Lit '').'']"]
  by (simp add: validate_input_def)



text \<open>
  Claim C10. Booleans pass as numbers: \<^verbatim>\<open>calculate_wip(True, True)\<close> returns the integer
  1, and \<^verbatim>\<open>calculate_station_utilization(1, 1, True)\<close> returns with \<^verbatim>\<open>True\<close> as a machine
  count of one.
\<close>

theorem booleans_accepted:
  "calculate_wip (Num (PyBool True)) (Num (PyBool True)) = Inr (Num (PyInt 1))
   \<and> calculate_station_utilization (Num (PyInt 1)) (Num (PyInt 1)) (Num (PyBool True)) =
       Inr \<lparr>station_wip = Num (PyInt 1), utilization = Num (PyFloat 1),
            utilization_pct = Num (PyFloat 100)\<rparr>"
  by (simp add: calculate_wip_def calculate_station_utilization_def validate_input_def
      num_mul_def py_truediv_Num)

theorem booleans_accepted_witness:
  "isinstance_int_float (Num (PyBool True)) \<and> isinstance_int (Num (PyBool True))
   \<and> \<not> raises_TypeError (calculate_wip (Num (PyBool True)) (Num (PyBool True)))
   \<and> \<not> raises_ValueError
         (calculate_station_utilization (Num (PyInt 1)) (Num (PyInt 1)) (Num (PyBool True)))"
  using booleans_accepted by simp

end
